theory Spec2Isabelle
  imports Main "HOL-Library.Monad_Syntax"
begin

section \<open>JavaScript values\<close>

text \<open>
  The expense form hands plain JSON-like data to the functions verified here: a payee,
  its payout methods, an expense draft. The embedding keeps them dynamically typed, as
  the JavaScript has them. An object is the list of its own properties in insertion
  order; an array is the list of its elements. Numbers are only passed through and
  tested for truthiness by the code below, never computed with, so integers stand for
  them (\<open>NaN\<close> behaves like \<open>0\<close> in every test the code makes).
\<close>

datatype jsval =
    JUndefined
  | JNull
  | JBool bool
  | JNum int
  | JStr string
  | JArr "jsval list"
  | JObj "(string \<times> jsval) list"

text \<open>JavaScript truthiness: what \<open>if (v)\<close>, \<open>v && e\<close> and \<open>v || e\<close> test.\<close>

fun truthy :: "jsval \<Rightarrow> bool" where
  "truthy JUndefined = False"
| "truthy JNull = False"
| "truthy (JBool b) = b"
| "truthy (JNum n) = (n \<noteq> 0)"
| "truthy (JStr s) = (s \<noteq> [])"
| "truthy (JArr xs) = True"
| "truthy (JObj kvs) = True"

fun nullish :: "jsval \<Rightarrow> bool" where
  "nullish JUndefined = True"
| "nullish JNull = True"
| "nullish v = False"

fun is_string :: "jsval \<Rightarrow> bool" where
  "is_string (JStr s) = True"
| "is_string v = False"

fun is_object :: "jsval \<Rightarrow> bool" where
  "is_object (JObj kvs) = True"
| "is_object v = False"

text \<open>
  Reading the property \<open>k\<close> of a value that is neither \<open>null\<close> nor \<open>undefined\<close>.
  An absent property reads as \<open>undefined\<close>. Primitives and arrays carry none of the
  property names the code below reads (\<open>length\<close>, \<open>map\<close>, \<open>filter\<close> are modelled where
  they are used).
\<close>

fun lookup :: "jsval \<Rightarrow> string \<Rightarrow> jsval" where
  "lookup (JObj kvs) k = (case map_of kvs k of None \<Rightarrow> JUndefined | Some v \<Rightarrow> v)"
| "lookup v k = JUndefined"

text \<open>
  \<open>v.k\<close> throws a TypeError when \<open>v\<close> is \<open>null\<close> or \<open>undefined\<close>: the result
  \<open>None\<close> stands for the thrown exception in every function below.
\<close>

definition member :: "jsval \<Rightarrow> string \<Rightarrow> jsval option" where
  "member v k = (if nullish v then None else Some (lookup v k))"

text \<open>\<open>v?.k\<close>, which is also lodash's \<open>get(v, 'k')\<close> for a single key.\<close>

definition opt_member :: "jsval \<Rightarrow> string \<Rightarrow> jsval" where
  "opt_member v k = (if nullish v then JUndefined else lookup v k)"

text \<open>
  \<open>xs.filter(p)\<close> where the callback may throw: elements are visited from the left
  and the first exception ends the call. On a value that is not an array there is no
  \<open>filter\<close> method and the call throws.
\<close>

fun filter_opt :: "(jsval \<Rightarrow> bool option) \<Rightarrow> jsval list \<Rightarrow> jsval list option" where
  "filter_opt p [] = Some []"
| "filter_opt p (x # xs) =
     (case p x of
        None \<Rightarrow> None
      | Some b \<Rightarrow> map_option (\<lambda>r. if b then x # r else r) (filter_opt p xs))"

fun array_filter :: "(jsval \<Rightarrow> bool option) \<Rightarrow> jsval \<Rightarrow> jsval list option" where
  "array_filter p (JArr xs) = filter_opt p xs"
| "array_filter p v = None"

text \<open>\<open>xs.find(p)\<close>: the first element satisfying \<open>p\<close>, or \<open>undefined\<close>.\<close>

definition array_find :: "(jsval \<Rightarrow> bool) \<Rightarrow> jsval list \<Rightarrow> jsval" where
  "array_find p xs = (case List.find p xs of None \<Rightarrow> JUndefined | Some x \<Rightarrow> x)"

section \<open>Constants of the library modules\<close>

text \<open>
  Modelled from the spec: \<open>lib/constants/payout-method\<close> is not among the sources. The
  spec writes the account-balance type as the tag \<open>ACCOUNT_BALANCE\<close>.
\<close>

definition PayoutMethodType_ACCOUNT_BALANCE :: jsval where
  "PayoutMethodType_ACCOUNT_BALANCE = JStr ''ACCOUNT_BALANCE''"

definition EMPTY_ARRAY :: "jsval list" where
  "EMPTY_ARRAY = []"

text \<open>
  The lists \<open>CollectiveFamilyTypes\<close> and \<open>AccountTypesWithHost\<close> of
  \<open>lib/constants/collectives\<close> are not among the sources either: both are lists of
  account type tags (strings), and the functions below take them as a parameter.
  \<open>list.includes(v)\<close> on a list of strings holds exactly when \<open>v\<close> is one of the strings.
\<close>

fun array_includes :: "string list \<Rightarrow> jsval \<Rightarrow> bool" where
  "array_includes tags (JStr s) = (s \<in> set tags)"
| "array_includes tags v = False"

section \<open>Payout methods of a payee\<close>

text \<open>The entry that \<open>getPayoutMethodsFromPayee\<close> puts in front for an active payee.\<close>

definition newAccountBalance :: jsval where
  "newAccountBalance =
     JObj [(''id'', JStr ''new''), (''data'', JObj []),
           (''type'', PayoutMethodType_ACCOUNT_BALANCE), (''isSaved'', JBool True)]"

text \<open>
  \<open>getPayoutMethodsFromPayee\<close> of the expense form (the file with \<open>prepareExpenseForSubmit\<close>
  and \<open>validate\<close>). The callback of the first filter destructures its argument,
  \<open>({ isSaved }) => isSaved\<close>, which throws on \<open>null\<close> and \<open>undefined\<close>. What passes
  that filter has a truthy \<open>isSaved\<close>, so it is an object and the later reads of
  \<open>pm.type\<close> cannot throw; they are written with \<open>lookup\<close>. \<open>unshift\<close> acts on the
  array that \<open>filter\<close> has just built, never on the payee's own.
\<close>

definition getPayoutMethodsFromPayee :: "string list \<Rightarrow> jsval \<Rightarrow> jsval list option" where
  "getPayoutMethodsFromPayee CollectiveFamilyTypes payee =
     (let got = opt_member payee ''payoutMethods'';
          basePms = (if truthy got then got else JArr EMPTY_ARRAY)
      in do {
        filteredPms \<leftarrow> array_filter (\<lambda>pm. map_option truthy (member pm ''isSaved'')) basePms;
        let filteredPms =
          (if truthy (opt_member payee ''isActive'') then
             (if \<not> truthy (array_find
                   (\<lambda>pm. lookup pm ''type'' = PayoutMethodType_ACCOUNT_BALANCE) filteredPms)
              then newAccountBalance # filteredPms
              else filteredPms)
           else filteredPms);
        let filteredPms =
          (if truthy payee \<and> array_includes CollectiveFamilyTypes (lookup payee ''type'') then
             filter (\<lambda>pm. lookup pm ''type'' = PayoutMethodType_ACCOUNT_BALANCE) filteredPms
           else filteredPms);
        Some (if length filteredPms > 0 then filteredPms else EMPTY_ARRAY)
      })"

text \<open>
  The copy of the same function in \<open>ExpenseFormPayeeSignUpStep.js\<close>, which tests
  membership in \<open>AccountTypesWithHost\<close>.
\<close>

definition getPayoutMethodsFromPayee_SignUpStep :: "string list \<Rightarrow> jsval \<Rightarrow> jsval list option" where
  "getPayoutMethodsFromPayee_SignUpStep AccountTypesWithHost payee =
     (let got = opt_member payee ''payoutMethods'';
          basePms = (if truthy got then got else JArr EMPTY_ARRAY)
      in do {
        filteredPms \<leftarrow> array_filter (\<lambda>pm. map_option truthy (member pm ''isSaved'')) basePms;
        let filteredPms =
          (if truthy (opt_member payee ''isActive'') then
             (if \<not> truthy (array_find
                   (\<lambda>pm. lookup pm ''type'' = PayoutMethodType_ACCOUNT_BALANCE) filteredPms)
              then newAccountBalance # filteredPms
              else filteredPms)
           else filteredPms);
        let filteredPms =
          (if truthy payee \<and> array_includes AccountTypesWithHost (lookup payee ''type'') then
             filter (\<lambda>pm. lookup pm ''type'' = PayoutMethodType_ACCOUNT_BALANCE) filteredPms
           else filteredPms);
        Some (if length filteredPms > 0 then filteredPms else EMPTY_ARRAY)
      })"

section \<open>Objects: lodash \<open>pick\<close>, property assignment, \<open>Object.assign\<close>\<close>

text \<open>The own properties of a value, as an object spread \<open>{...v}\<close> copies them.\<close>

fun props :: "jsval \<Rightarrow> (string \<times> jsval) list" where
  "props (JObj kvs) = kvs"
| "props v = []"

text \<open>
  lodash \<open>pick(object, keys)\<close>: a new object with those of the listed keys that
  \<open>object\<close> has, in the order of the list; a property that is present with the value
  \<open>undefined\<close> is kept. \<open>pick\<close> of \<open>null\<close>, \<open>undefined\<close> or a primitive is the empty
  object.
\<close>

fun pick :: "jsval \<Rightarrow> string list \<Rightarrow> jsval" where
  "pick (JObj kvs) ks = JObj (List.map_filter (\<lambda>k. map_option (Pair k) (map_of kvs k)) ks)"
| "pick v ks = JObj []"

text \<open>\<open>o[k] = v\<close>: an existing property keeps its place, a new one goes last.\<close>

fun obj_set :: "(string \<times> jsval) list \<Rightarrow> string \<Rightarrow> jsval \<Rightarrow> (string \<times> jsval) list" where
  "obj_set [] k v = [(k, v)]"
| "obj_set ((k', v') # kvs) k v =
     (if k' = k then (k, v) # kvs else (k', v') # obj_set kvs k v)"

text \<open>\<open>Object.assign(target, source)\<close> assigns the properties of \<open>source\<close> in order.\<close>

definition object_assign ::
    "(string \<times> jsval) list \<Rightarrow> (string \<times> jsval) list \<Rightarrow> (string \<times> jsval) list" where
  "object_assign target source = foldl (\<lambda>t (k, v). obj_set t k v) target source"

text \<open>
  \<open>xs.map(f)\<close> where the callback may throw; on a value that is not an array there is
  no \<open>map\<close> method and the call throws.
\<close>

fun map_opt :: "(jsval \<Rightarrow> jsval option) \<Rightarrow> jsval list \<Rightarrow> jsval list option" where
  "map_opt f [] = Some []"
| "map_opt f (x # xs) = do { y \<leftarrow> f x; ys \<leftarrow> map_opt f xs; Some (y # ys) }"

fun array_map :: "(jsval \<Rightarrow> jsval option) \<Rightarrow> jsval \<Rightarrow> jsval option" where
  "array_map f (JArr xs) = map_option JArr (map_opt f xs)"
| "array_map f v = None"

text \<open>lodash \<open>isEmpty\<close>.\<close>

fun isEmpty :: "jsval \<Rightarrow> bool" where
  "isEmpty (JObj kvs) = (kvs = [])"
| "isEmpty (JArr xs) = (xs = [])"
| "isEmpty (JStr s) = (s = [])"
| "isEmpty v = True"

section \<open>Preparing an expense for submission\<close>

text \<open>
  Modelled from the spec: \<open>lib/constants/expenseTypes\<close> is not among the sources. The
  spec writes the invoice type of a draft as \<open>'INVOICE'\<close>.
\<close>

definition expenseTypes_INVOICE :: jsval where
  "expenseTypes_INVOICE = JStr ''INVOICE''"

text \<open>
  Modelled from the spec: \<open>expenseTypes.RECEIPT\<close> of the same missing module, written
  \<open>'RECEIPT'\<close> in the spec.
\<close>

definition expenseTypes_RECEIPT :: jsval where
  "expenseTypes_RECEIPT = JStr ''RECEIPT''"

text \<open>
  Modelled from the spec: \<open>expenseTypes.FUNDING_REQUEST\<close> of the same missing module.
  The spec names the funding-request type without writing its tag; the tag here follows
  the pattern of the other two, and the theorems use only that the three tags are
  different strings.
\<close>

definition expenseTypes_FUNDING_REQUEST :: jsval where
  "expenseTypes_FUNDING_REQUEST = JStr ''FUNDING_REQUEST''"

text \<open>
  \<open>prepareExpenseForSubmit\<close>. The keys that the spread of the first \<open>pick\<close>
  contributes are different from the five keys written after it, so the object literal
  is the concatenation of the two property lists. \<open>expenseData.attachedFiles?.map\<close>
  is \<open>undefined\<close> for \<open>null\<close> and \<open>undefined\<close>, and throws for any other value that
  is not an array; \<open>item.__isNew\<close> throws for an item that is \<open>null\<close> or \<open>undefined\<close>.
\<close>

definition prepareExpenseForSubmit :: "jsval \<Rightarrow> jsval option" where
  "prepareExpenseForSubmit expenseData = do {
     payee \<leftarrow> member expenseData ''payee'';
     let payeeIdField = (if is_string (opt_member payee ''id'') then ''id'' else ''legacyId'');
     let isInvoice = (lookup expenseData ''type'' = expenseTypes_INVOICE);
     let isFundingRequest = (lookup expenseData ''type'' = expenseTypes_FUNDING_REQUEST);
     attachedFiles \<leftarrow>
       (if isInvoice then
          (let files = lookup expenseData ''attachedFiles'' in
           if nullish files then Some JUndefined
           else array_map (\<lambda>file. Some (pick file [''id'', ''url''])) files)
        else Some (JArr []));
     items \<leftarrow>
       array_map
         (\<lambda>item. do {
            isNew \<leftarrow> member item ''__isNew'';
            Some (pick item
              ((if truthy isNew then [] else [''id'']) @
               (if isInvoice \<or> isFundingRequest then [] else [''url'']) @
               [''description'', ''incurredAt'', ''amount'']))
          })
         (lookup expenseData ''items'');
     Some (JObj
       (props (pick expenseData
          [''id'', ''description'', ''longDescription'', ''type'', ''privateMessage'',
           ''invoiceInfo'', ''tags'']) @
        [(''payee'',
            if truthy payee then JObj [(payeeIdField, lookup payee ''id'')] else payee),
         (''payoutMethod'',
            pick (lookup expenseData ''payoutMethod'')
              [''id'', ''name'', ''data'', ''isSaved'', ''type'']),
         (''payeeLocation'',
            if isInvoice then pick (lookup expenseData ''payeeLocation'') [''address'', ''country'']
            else JNull),
         (''attachedFiles'', attachedFiles),
         (''items'', items)]))
   }"

section \<open>Validating an expense\<close>

text \<open>
  Modelled from the spec: the error kinds of \<open>lib/errors\<close> are not among the sources.
  By the spec an error kind is a string tag attached to a field's path, and the
  required-field check gives the kind \<open>FORM_FIELD_REQUIRED\<close>.
\<close>

definition FORM_FIELD_REQUIRED :: jsval where
  "FORM_FIELD_REQUIRED = JStr ''FORM_FIELD_REQUIRED''"

text \<open>
  Modelled from the spec: when the required-field check of the missing
  \<open>lib/form-utils\<close> marks a field. The spec says \<open>missing/empty\<close>: a field is missing
  when it reads as \<open>undefined\<close> or \<open>null\<close>, and empty when it is the empty string.
\<close>

definition isMissingOrEmpty :: "jsval \<Rightarrow> bool" where
  "isMissingOrEmpty v = (nullish v \<or> v = JStr [])"

text \<open>
  Modelled from the spec: the field paths of the required-field check. A path \<open>a.b\<close>
  names the property \<open>b\<close> of the property \<open>a\<close>, and an error for it is nested under
  \<open>a\<close>. Reading along a path stops with \<open>undefined\<close> at a missing property; writing
  along a path makes the objects on the way.
\<close>

fun toPath :: "string \<Rightarrow> string list" where
  "toPath [] = [[]]"
| "toPath (c # cs) =
     (if c = CHR ''.'' then [] # toPath cs
      else (case toPath cs of [] \<Rightarrow> [[c]] | p # ps \<Rightarrow> (c # p) # ps))"

fun get_path :: "jsval \<Rightarrow> string list \<Rightarrow> jsval" where
  "get_path v [] = v"
| "get_path v (k # ks) = get_path (opt_member v k) ks"

fun set_path :: "(string \<times> jsval) list \<Rightarrow> string list \<Rightarrow> jsval \<Rightarrow> (string \<times> jsval) list" where
  "set_path kvs [] v = kvs"
| "set_path kvs [k] v = obj_set kvs k v"
| "set_path kvs (k # k' # ks) v =
     obj_set kvs k (JObj (set_path (props (lookup (JObj kvs) k)) (k' # ks) v))"

text \<open>
  Modelled from the spec: \<open>requireFields\<close> of \<open>lib/form-utils\<close> is not among the
  sources. By the spec, the required-field check goes over the listed fields in order
  and attaches \<open>FORM_FIELD_REQUIRED\<close> to each one that is missing or empty, in a
  fresh object of errors; the other fields get no entry.
\<close>

definition requireFields :: "jsval \<Rightarrow> string list \<Rightarrow> (string \<times> jsval) list" where
  "requireFields obj fields =
     foldl (\<lambda>errors field.
              if isMissingOrEmpty (get_path obj (toPath field))
              then set_path errors (toPath field) FORM_FIELD_REQUIRED
              else errors)
       [] fields"

text \<open>
  \<open>validate\<close>. The validators of one item and of a payout method are other modules'
  functions (\<open>ExpenseItemForm\<close>, \<open>PayoutMethodForm\<close>) and are parameters here; each
  returns an object of errors. The form keeps an array under \<open>items\<close>
  (\<open>getDefaultExpense\<close> starts it as \<open>[]\<close>): \<open>expense.items.length\<close> throws when
  \<open>items\<close> is \<open>null\<close> or \<open>undefined\<close>, and the embedding covers no other value that
  is not an array, returning \<open>None\<close> for it as well.
\<close>

definition validate ::
    "(jsval \<Rightarrow> jsval \<Rightarrow> jsval) \<Rightarrow> (jsval \<Rightarrow> jsval) \<Rightarrow> jsval \<Rightarrow> jsval option" where
  "validate validateExpenseItem validatePayoutMethod expense = do {
     let errors = requireFields expense [''description'', ''payee'', ''payoutMethod'', ''currency''];
     items \<leftarrow> member expense ''items'';
     errors \<leftarrow>
       (case items of
          JArr its \<Rightarrow>
            Some (if length its > 0 then
                    (let itemsErrors = map (\<lambda>item. validateExpenseItem expense item) its;
                         hasErrors = list_ex (\<lambda>errors. \<not> isEmpty errors) itemsErrors
                     in if hasErrors then obj_set errors ''items'' (JArr itemsErrors) else errors)
                  else errors)
        | _ \<Rightarrow> None);
     let errors =
       (if truthy (lookup expense ''payoutMethod'') then
          (let payoutMethodErrors = validatePayoutMethod (lookup expense ''payoutMethod'')
           in if \<not> isEmpty payoutMethodErrors
              then obj_set errors ''payoutMethod'' payoutMethodErrors
              else errors)
        else errors);
     let errors =
       (if lookup expense ''type'' = expenseTypes_INVOICE then
          object_assign errors
            (requireFields expense [''payeeLocation.country'', ''payeeLocation.address''])
        else errors);
     Some (JObj errors)
   }"

section \<open>The data model of the specification\<close>

text \<open>
  The spec's data model gives a payee an \<open>isActive\<close> flag and a sequence of payout
  methods, each an object with an \<open>isSaved\<close> flag. A flag is a boolean, or absent.
  An absent payee is \<open>null\<close> or \<open>undefined\<close>.
\<close>

fun is_flag :: "jsval \<Rightarrow> bool" where
  "is_flag (JBool b) = True"
| "is_flag JUndefined = True"
| "is_flag JNull = True"
| "is_flag v = False"

definition wf_payoutMethod :: "jsval \<Rightarrow> bool" where
  "wf_payoutMethod pm = (is_object pm \<and> is_flag (lookup pm ''isSaved''))"

definition wf_payee :: "jsval \<Rightarrow> bool" where
  "wf_payee payee =
     (nullish payee \<or>
      is_object payee \<and> is_flag (lookup payee ''isActive'') \<and>
      (case lookup payee ''payoutMethods'' of
         JArr pms \<Rightarrow> list_all wf_payoutMethod pms
       | v \<Rightarrow> nullish v))"

definition payoutMethods :: "jsval \<Rightarrow> jsval list" where
  "payoutMethods payee =
     (case opt_member payee ''payoutMethods'' of JArr pms \<Rightarrow> pms | v \<Rightarrow> [])"

text \<open>The saved methods of a payee: its payout methods with \<open>isSaved = true\<close>, in order.\<close>

definition savedMethods :: "jsval \<Rightarrow> jsval list" where
  "savedMethods payee =
     filter (\<lambda>pm. lookup pm ''isSaved'' = JBool True) (payoutMethods payee)"

definition isAccountBalance :: "jsval \<Rightarrow> bool" where
  "isAccountBalance pm = (lookup pm ''type'' = PayoutMethodType_ACCOUNT_BALANCE)"

text \<open>A payee whose type is in the given list of collective-family types.\<close>

definition inFamily :: "string list \<Rightarrow> jsval \<Rightarrow> bool" where
  "inFamily tags payee = (truthy payee \<and> array_includes tags (lookup payee ''type''))"

subsection \<open>Concrete payees\<close>

definition ex_family :: "string list" where
  "ex_family = [''COLLECTIVE'', ''EVENT'', ''FUND'', ''PROJECT'']"

definition ex_bank :: jsval where
  "ex_bank =
     JObj [(''id'', JStr ''pm-1''), (''type'', JStr ''BANK_ACCOUNT''),
           (''isSaved'', JBool True), (''data'', JObj [(''currency'', JStr ''USD'')])]"

definition ex_adhoc :: jsval where
  "ex_adhoc =
     JObj [(''id'', JStr ''pm-2''), (''type'', JStr ''OTHER''),
           (''isSaved'', JBool False), (''data'', JObj [])]"

definition ex_balance :: jsval where
  "ex_balance =
     JObj [(''id'', JStr ''pm-3''), (''type'', JStr ''ACCOUNT_BALANCE''),
           (''isSaved'', JBool True), (''data'', JObj [])]"

definition ex_payee :: "string \<Rightarrow> bool \<Rightarrow> jsval list \<Rightarrow> jsval" where
  "ex_payee tag active pms =
     JObj [(''id'', JStr ''account-1''), (''type'', JStr tag),
           (''isActive'', JBool active), (''payoutMethods'', JArr pms)]"

subsection \<open>Expense drafts\<close>

text \<open>
  The drafts on which \<open>prepareExpenseForSubmit\<close> returns (\<open>prepare_returns_iff\<close>
  below): \<open>items\<close> is an array without \<open>null\<close> or \<open>undefined\<close> entries and, for an
  invoice, \<open>attachedFiles\<close> is an array or absent. The drafts of the expense form are
  of this kind.
\<close>

definition wf_draft :: "jsval \<Rightarrow> bool" where
  "wf_draft draft =
     ((case lookup draft ''items'' of
         JArr its \<Rightarrow> list_all (\<lambda>item. \<not> nullish item) its
       | v \<Rightarrow> False) \<and>
      (lookup draft ''type'' \<noteq> expenseTypes_INVOICE \<or>
       (case lookup draft ''attachedFiles'' of JArr files \<Rightarrow> True | v \<Rightarrow> nullish v)))"

definition itemsOf :: "jsval \<Rightarrow> jsval list" where
  "itemsOf draft = (case lookup draft ''items'' of JArr its \<Rightarrow> its | v \<Rightarrow> [])"

text \<open>
  What the callback of \<open>items.map\<close> makes of one item; \<open>noUrl\<close> holds for invoices
  and funding requests.
\<close>

definition submittedItem :: "bool \<Rightarrow> jsval \<Rightarrow> jsval" where
  "submittedItem noUrl item =
     pick item
       ((if truthy (lookup item ''__isNew'') then [] else [''id'']) @
        (if noUrl then [] else [''url'']) @
        [''description'', ''incurredAt'', ''amount''])"

text \<open>
  The payload of a draft in closed form; \<open>prepare_eq\<close> below proves that this is what
  \<open>prepareExpenseForSubmit\<close> returns whenever it returns.
\<close>

definition payload :: "jsval \<Rightarrow> jsval" where
  "payload draft =
     (let payee = lookup draft ''payee'';
          isInvoice = (lookup draft ''type'' = expenseTypes_INVOICE);
          noUrl = (isInvoice \<or> lookup draft ''type'' = expenseTypes_FUNDING_REQUEST)
      in JObj
        (props (pick draft
           [''id'', ''description'', ''longDescription'', ''type'', ''privateMessage'',
            ''invoiceInfo'', ''tags'']) @
         [(''payee'',
             if truthy payee
             then JObj [(if is_string (lookup payee ''id'') then ''id'' else ''legacyId'',
                         lookup payee ''id'')]
             else payee),
          (''payoutMethod'',
             pick (lookup draft ''payoutMethod'')
               [''id'', ''name'', ''data'', ''isSaved'', ''type'']),
          (''payeeLocation'',
             if isInvoice then pick (lookup draft ''payeeLocation'') [''address'', ''country'']
             else JNull),
          (''attachedFiles'',
             if isInvoice then
               (case lookup draft ''attachedFiles'' of
                  JArr files \<Rightarrow> JArr (map (\<lambda>file. pick file [''id'', ''url'']) files)
                | v \<Rightarrow> JUndefined)
             else JArr []),
          (''items'', JArr (map (submittedItem noUrl) (itemsOf draft)))]))"

text \<open>
  The errors that \<open>validate\<close> has collected after its first three rules, on an
  expense whose \<open>items\<close> is an array, in closed form (\<open>validate_array\<close> below).
\<close>

definition errorsBeforeLocation ::
    "(jsval \<Rightarrow> jsval \<Rightarrow> jsval) \<Rightarrow> (jsval \<Rightarrow> jsval) \<Rightarrow> jsval \<Rightarrow> (string \<times> jsval) list" where
  "errorsBeforeLocation validateExpenseItem validatePayoutMethod expense =
     (let errors = requireFields expense [''description'', ''payee'', ''payoutMethod'', ''currency''];
          itemsErrors = map (validateExpenseItem expense) (itemsOf expense);
          errors = (if list_ex (\<lambda>e. \<not> isEmpty e) itemsErrors
                    then obj_set errors ''items'' (JArr itemsErrors) else errors)
      in if truthy (lookup expense ''payoutMethod'') \<and>
            \<not> isEmpty (validatePayoutMethod (lookup expense ''payoutMethod''))
         then obj_set errors ''payoutMethod'' (validatePayoutMethod (lookup expense ''payoutMethod''))
         else errors)"

subsection \<open>Concrete drafts\<close>

definition ex_item_new :: jsval where
  "ex_item_new =
     JObj [(''__isNew'', JBool True), (''id'', JStr ''tmp-1''), (''url'', JStr ''/r/1.png''),
           (''description'', JStr ''Pizza''), (''incurredAt'', JStr ''2020-10-01''),
           (''amount'', JNum 1200)]"

definition ex_item_saved :: jsval where
  "ex_item_saved =
     JObj [(''id'', JStr ''item-7''), (''url'', JStr ''/r/2.png''),
           (''description'', JStr ''Drinks''), (''incurredAt'', JStr ''2020-10-02''),
           (''amount'', JNum 800)]"

definition ex_file :: jsval where
  "ex_file = JObj [(''id'', JStr ''file-1''), (''url'', JStr ''/f/1.pdf''), (''name'', JStr ''a.pdf'')]"

definition ex_location :: jsval where
  "ex_location =
     JObj [(''country'', JStr ''FR''), (''address'', JStr ''1 rue X''), (''structured'', JNull)]"

definition ex_account_v1 :: jsval where
  "ex_account_v1 = JObj [(''id'', JNum 4051), (''name'', JStr ''Ann''), (''type'', JStr ''USER'')]"

definition ex_account_v2 :: jsval where
  "ex_account_v2 = JObj [(''id'', JStr ''ab-cd''), (''name'', JStr ''Bob''), (''type'', JStr ''USER'')]"

definition ex_draft :: "string \<Rightarrow> jsval \<Rightarrow> jsval" where
  "ex_draft ty payee =
     JObj [(''description'', JStr ''Team lunch''), (''type'', JStr ty), (''payee'', payee),
           (''payoutMethod'', ex_bank), (''currency'', JStr ''USD''),
           (''items'', JArr [ex_item_new, ex_item_saved]),
           (''attachedFiles'', JArr [ex_file]), (''payeeLocation'', ex_location)]"

text \<open>
  The two drafts of the spec's examples for \<open>validate\<close>: nothing filled in but the
  currency, with the given type and payee location.
\<close>

definition ex_blank_draft :: "string \<Rightarrow> jsval \<Rightarrow> jsval" where
  "ex_blank_draft ty location =
     JObj [(''description'', JStr ''''), (''payee'', JNull), (''payoutMethod'', JNull),
           (''currency'', JStr ''USD''), (''items'', JArr []), (''type'', JStr ty),
           (''payeeLocation'', location)]"

text \<open>Stand-ins for the two validators that \<open>validate\<close> calls: they find no error.\<close>

definition ex_validateExpenseItem :: "jsval \<Rightarrow> jsval \<Rightarrow> jsval" where
  "ex_validateExpenseItem expense item = JObj []"

definition ex_validatePayoutMethod :: "jsval \<Rightarrow> jsval" where
  "ex_validatePayoutMethod payoutMethod = JObj []"

section \<open>Payout methods: lemmas\<close>

lemma truthy_flag: "is_flag v \<Longrightarrow> truthy v = (v = JBool True)"
  by (cases v) auto

lemma filter_opt_saved:
  "list_all wf_payoutMethod pms \<Longrightarrow>
   filter_opt (\<lambda>pm. map_option truthy (member pm ''isSaved'')) pms =
     Some (filter (\<lambda>pm. lookup pm ''isSaved'' = JBool True) pms)"
proof (induction pms)
  case Nil
  then show ?case by simp
next
  case (Cons pm pms)
  from Cons.prems have obj: "is_object pm" and flag: "is_flag (lookup pm ''isSaved'')"
    by (simp_all add: wf_payoutMethod_def)
  from obj have "\<not> nullish pm" by (cases pm) simp_all
  then have "member pm ''isSaved'' = Some (lookup pm ''isSaved'')"
    by (simp add: member_def)
  with Cons flag show ?case
    by (simp add: truthy_flag)
qed

lemma array_find_truthy:
  "list_all is_object xs \<Longrightarrow> truthy (array_find p xs) = list_ex p xs"
  by (induction xs) (auto simp: array_find_def elim: is_object.elims)

lemma base_filter:
  assumes "wf_payee payee"
  shows "array_filter (\<lambda>pm. map_option truthy (member pm ''isSaved''))
           (if truthy (opt_member payee ''payoutMethods'')
            then opt_member payee ''payoutMethods'' else JArr EMPTY_ARRAY)
         = Some (savedMethods payee)"
proof (cases "nullish payee")
  case True
  then show ?thesis
    by (simp add: opt_member_def savedMethods_def payoutMethods_def EMPTY_ARRAY_def)
next
  case False
  with assms have wf: "case lookup payee ''payoutMethods'' of
         JArr pms \<Rightarrow> list_all wf_payoutMethod pms | v \<Rightarrow> nullish v"
    by (simp add: wf_payee_def)
  show ?thesis
  proof (cases "lookup payee ''payoutMethods''")
    case (JArr pms)
    with wf False show ?thesis
      by (simp add: opt_member_def savedMethods_def payoutMethods_def filter_opt_saved)
  qed (use wf False in \<open>simp_all add: opt_member_def savedMethods_def payoutMethods_def EMPTY_ARRAY_def\<close>)
qed

lemma savedMethods_objects: "wf_payee payee \<Longrightarrow> list_all is_object (savedMethods payee)"
  by (auto simp: wf_payee_def savedMethods_def payoutMethods_def opt_member_def
        list_all_iff wf_payoutMethod_def split: jsval.splits)

lemma isActive_flag:
  "wf_payee payee \<Longrightarrow>
   truthy (opt_member payee ''isActive'') = (opt_member payee ''isActive'' = JBool True)"
  by (auto simp: wf_payee_def opt_member_def truthy_flag)

lemma or_EMPTY_ARRAY: "(if length xs > 0 then xs else EMPTY_ARRAY) = xs"
  by (simp add: EMPTY_ARRAY_def)

text \<open>
  What \<open>getPayoutMethodsFromPayee\<close> returns for a payee of the data model: the saved
  methods, with the new account-balance entry in front when the payee is active and has
  no saved account-balance method, and all of that restricted to account-balance
  entries when the payee is of a collective-family type.
\<close>

lemma getPayoutMethodsFromPayee_wf:
  assumes "wf_payee payee"
  shows "getPayoutMethodsFromPayee tags payee =
    Some (let saved = savedMethods payee;
              withNew = (if opt_member payee ''isActive'' = JBool True \<and>
                            \<not> list_ex isAccountBalance saved
                         then newAccountBalance # saved else saved)
          in if inFamily tags payee then filter isAccountBalance withNew else withNew)"
proof -
  have find: "truthy (array_find (\<lambda>pm. lookup pm ''type'' = PayoutMethodType_ACCOUNT_BALANCE)
                 (savedMethods payee)) = list_ex isAccountBalance (savedMethods payee)"
    using array_find_truthy[OF savedMethods_objects[OF assms], of isAccountBalance]
    by (simp add: isAccountBalance_def[abs_def])
  show ?thesis
    unfolding getPayoutMethodsFromPayee_def Let_def base_filter[OF assms] or_EMPTY_ARRAY
    by (simp add: find isActive_flag[OF assms] inFamily_def isAccountBalance_def[abs_def])
qed

lemma SignUpStep_same:
  "getPayoutMethodsFromPayee_SignUpStep tags payee = getPayoutMethodsFromPayee tags payee"
  by (simp add: getPayoutMethodsFromPayee_SignUpStep_def getPayoutMethodsFromPayee_def)

lemma isAccountBalance_new: "isAccountBalance newAccountBalance"
  by (simp add: isAccountBalance_def newAccountBalance_def)

lemma wf_ex_payee:
  "wf_payee (ex_payee tag active pms) = list_all wf_payoutMethod pms"
  by (simp add: wf_payee_def ex_payee_def)

lemma wf_ex_methods:
  "wf_payoutMethod ex_bank" "wf_payoutMethod ex_adhoc" "wf_payoutMethod ex_balance"
  by (simp_all add: wf_payoutMethod_def ex_bank_def ex_adhoc_def ex_balance_def)

lemma inFamily_ex_payee:
  "inFamily tags (ex_payee tag active pms) = (tag \<in> set tags)"
  by (simp add: inFamily_def ex_payee_def)

lemma isActive_ex_payee:
  "opt_member (ex_payee tag active pms) ''isActive'' = JBool active"
  by (simp add: opt_member_def ex_payee_def)

lemma savedMethods_ex_payee:
  "savedMethods (ex_payee tag active pms) = filter (\<lambda>pm. lookup pm ''isSaved'' = JBool True) pms"
  by (simp add: savedMethods_def payoutMethods_def opt_member_def ex_payee_def)

lemma ex_methods_saved:
  "lookup ex_bank ''isSaved'' = JBool True" "lookup ex_adhoc ''isSaved'' \<noteq> JBool True"
  "lookup ex_balance ''isSaved'' = JBool True"
  by (simp_all add: ex_bank_def ex_adhoc_def ex_balance_def)

lemma ex_methods_type:
  "\<not> isAccountBalance ex_bank" "\<not> isAccountBalance ex_adhoc" "isAccountBalance ex_balance"
  by (simp_all add: isAccountBalance_def PayoutMethodType_ACCOUNT_BALANCE_def
        ex_bank_def ex_adhoc_def ex_balance_def)

lemmas ex_payee_simps =
  wf_ex_payee wf_ex_methods inFamily_ex_payee isActive_ex_payee savedMethods_ex_payee
  ex_methods_saved ex_methods_type isAccountBalance_new

section \<open>Payout methods: the claims\<close>

text \<open>
  C1. For a payee of a collective-family type, both copies of
  \<open>getPayoutMethodsFromPayee\<close> return, and every entry of the result is of type
  \<open>ACCOUNT_BALANCE\<close>; the result may be empty. Nothing is assumed about \<open>isActive\<close>
  or about the saved methods, so this holds whether or not the new entry was put in
  front.
\<close>

theorem family_only_account_balance:
  assumes "wf_payee payee" and "inFamily tags payee"
  shows "\<exists>r. getPayoutMethodsFromPayee tags payee = Some r \<and>
             getPayoutMethodsFromPayee_SignUpStep tags payee = Some r \<and>
             list_all isAccountBalance r"
  using assms
  by (simp add: SignUpStep_same getPayoutMethodsFromPayee_wf Let_def list_all_iff)

theorem family_only_account_balance_witness:
  "wf_payee (ex_payee ''COLLECTIVE'' True [ex_bank, ex_adhoc]) \<and>
   inFamily ex_family (ex_payee ''COLLECTIVE'' True [ex_bank, ex_adhoc]) \<and>
   wf_payee (ex_payee ''FUND'' False [ex_bank, ex_balance]) \<and>
   inFamily ex_family (ex_payee ''FUND'' False [ex_bank, ex_balance]) \<and>
   (\<exists>r. getPayoutMethodsFromPayee ex_family (ex_payee ''COLLECTIVE'' True [ex_bank, ex_adhoc]) = Some r \<and>
        getPayoutMethodsFromPayee_SignUpStep ex_family (ex_payee ''COLLECTIVE'' True [ex_bank, ex_adhoc]) = Some r \<and>
        list_all isAccountBalance r) \<and>
   (\<exists>r. getPayoutMethodsFromPayee ex_family (ex_payee ''FUND'' False [ex_bank, ex_balance]) = Some r \<and>
        getPayoutMethodsFromPayee_SignUpStep ex_family (ex_payee ''FUND'' False [ex_bank, ex_balance]) = Some r \<and>
        list_all isAccountBalance r)"
proof -
  have a: "wf_payee (ex_payee ''COLLECTIVE'' True [ex_bank, ex_adhoc])"
    and b: "inFamily ex_family (ex_payee ''COLLECTIVE'' True [ex_bank, ex_adhoc])"
    and c: "wf_payee (ex_payee ''FUND'' False [ex_bank, ex_balance])"
    and d: "inFamily ex_family (ex_payee ''FUND'' False [ex_bank, ex_balance])"
    by (simp_all add: ex_payee_simps ex_family_def)
  show ?thesis
    using a b c d family_only_account_balance[OF a b] family_only_account_balance[OF c d]
    by simp
qed

text \<open>
  C2, as the spec states it, fails. An active payee of a collective-family type with one
  saved bank account and no saved account-balance method gets the new entry alone: the
  restriction to account-balance entries, applied last, removes the saved bank account.
\<close>

theorem active_prepend_counterexample:
  "wf_payee (ex_payee ''COLLECTIVE'' True [ex_bank]) \<and>
   opt_member (ex_payee ''COLLECTIVE'' True [ex_bank]) ''isActive'' = JBool True \<and>
   savedMethods (ex_payee ''COLLECTIVE'' True [ex_bank]) = [ex_bank] \<and>
   \<not> list_ex isAccountBalance (savedMethods (ex_payee ''COLLECTIVE'' True [ex_bank])) \<and>
   getPayoutMethodsFromPayee ex_family (ex_payee ''COLLECTIVE'' True [ex_bank]) =
     Some [newAccountBalance] \<and>
   getPayoutMethodsFromPayee ex_family (ex_payee ''COLLECTIVE'' True [ex_bank]) \<noteq>
     Some (newAccountBalance # savedMethods (ex_payee ''COLLECTIVE'' True [ex_bank]))"
  by (simp add: getPayoutMethodsFromPayee_wf ex_payee_simps ex_family_def)

text \<open>
  C2, amended. For an active payee (\<open>isActive = true\<close>):
  \<^item> with no saved account-balance method, the result is the new entry followed by the
    saved methods when the payee's type is not a collective-family type, and the new
    entry alone when it is;
  \<^item> with a saved account-balance method, no entry is added: the result is the saved
    methods, restricted to the account-balance ones for a collective-family type.
\<close>

theorem active_prepend:
  assumes "wf_payee payee" and "opt_member payee ''isActive'' = JBool True"
  shows "getPayoutMethodsFromPayee tags payee =
           Some (if list_ex isAccountBalance (savedMethods payee) then
                   (if inFamily tags payee then filter isAccountBalance (savedMethods payee)
                    else savedMethods payee)
                 else
                   (if inFamily tags payee then [newAccountBalance]
                    else newAccountBalance # savedMethods payee)) \<and>
         getPayoutMethodsFromPayee_SignUpStep tags payee =
           getPayoutMethodsFromPayee tags payee"
proof -
  have "filter isAccountBalance (savedMethods payee) = []"
    if "\<not> list_ex isAccountBalance (savedMethods payee)"
    using that by (simp add: list_ex_iff filter_empty_conv)
  then have "getPayoutMethodsFromPayee tags payee =
           Some (if list_ex isAccountBalance (savedMethods payee) then
                   (if inFamily tags payee then filter isAccountBalance (savedMethods payee)
                    else savedMethods payee)
                 else
                   (if inFamily tags payee then [newAccountBalance]
                    else newAccountBalance # savedMethods payee))"
    using assms by (simp add: getPayoutMethodsFromPayee_wf Let_def isAccountBalance_new)
  then show ?thesis
    by (simp add: SignUpStep_same)
qed

theorem active_prepend_witness:
  "wf_payee (ex_payee ''ORGANIZATION'' True [ex_bank, ex_adhoc]) \<and>
   opt_member (ex_payee ''ORGANIZATION'' True [ex_bank, ex_adhoc]) ''isActive'' = JBool True \<and>
   getPayoutMethodsFromPayee ex_family (ex_payee ''ORGANIZATION'' True [ex_bank, ex_adhoc]) =
     Some [newAccountBalance, ex_bank] \<and>
   wf_payee (ex_payee ''ORGANIZATION'' True [ex_bank, ex_balance]) \<and>
   opt_member (ex_payee ''ORGANIZATION'' True [ex_bank, ex_balance]) ''isActive'' = JBool True \<and>
   getPayoutMethodsFromPayee ex_family (ex_payee ''ORGANIZATION'' True [ex_bank, ex_balance]) =
     Some [ex_bank, ex_balance] \<and>
   wf_payee (ex_payee ''COLLECTIVE'' True [ex_bank, ex_balance]) \<and>
   opt_member (ex_payee ''COLLECTIVE'' True [ex_bank, ex_balance]) ''isActive'' = JBool True \<and>
   getPayoutMethodsFromPayee ex_family (ex_payee ''COLLECTIVE'' True [ex_bank, ex_balance]) =
     Some [ex_balance]"
proof -
  have a: "wf_payee (ex_payee ''ORGANIZATION'' True [ex_bank, ex_adhoc])"
    and b: "wf_payee (ex_payee ''ORGANIZATION'' True [ex_bank, ex_balance])"
    and c: "wf_payee (ex_payee ''COLLECTIVE'' True [ex_bank, ex_balance])"
    by (simp_all add: ex_payee_simps)
  have act: "opt_member (ex_payee tag True pms) ''isActive'' = JBool True" for tag pms
    by (simp add: ex_payee_simps)
  show ?thesis
    using a b c active_prepend[OF a act, of ex_family]
      active_prepend[OF b act, of ex_family] active_prepend[OF c act, of ex_family]
    by (simp add: ex_payee_simps ex_family_def)
qed

text \<open>
  C3. For a payee that is not active (\<open>isActive\<close> is \<open>false\<close> or absent) and whose
  type is not a collective-family type, both copies return exactly the saved methods:
  the entries of \<open>payee.payoutMethods\<close> with \<open>isSaved = true\<close>, in their order, each
  entry unchanged.
\<close>

theorem inactive_returns_saved:
  assumes "wf_payee payee"
    and "opt_member payee ''isActive'' \<noteq> JBool True"
    and "\<not> inFamily tags payee"
  shows "getPayoutMethodsFromPayee tags payee =
           Some (filter (\<lambda>pm. lookup pm ''isSaved'' = JBool True) (payoutMethods payee)) \<and>
         getPayoutMethodsFromPayee_SignUpStep tags payee =
           Some (filter (\<lambda>pm. lookup pm ''isSaved'' = JBool True) (payoutMethods payee))"
  using assms
  by (simp add: SignUpStep_same getPayoutMethodsFromPayee_wf Let_def savedMethods_def)

theorem inactive_returns_saved_witness:
  "wf_payee (ex_payee ''USER'' False [ex_adhoc, ex_bank, ex_balance]) \<and>
   opt_member (ex_payee ''USER'' False [ex_adhoc, ex_bank, ex_balance]) ''isActive'' \<noteq> JBool True \<and>
   \<not> inFamily ex_family (ex_payee ''USER'' False [ex_adhoc, ex_bank, ex_balance]) \<and>
   getPayoutMethodsFromPayee ex_family (ex_payee ''USER'' False [ex_adhoc, ex_bank, ex_balance]) =
     Some [ex_bank, ex_balance] \<and>
   getPayoutMethodsFromPayee_SignUpStep ex_family
       (ex_payee ''USER'' False [ex_adhoc, ex_bank, ex_balance]) =
     Some [ex_bank, ex_balance]"
proof -
  have a: "wf_payee (ex_payee ''USER'' False [ex_adhoc, ex_bank, ex_balance])"
    and b: "opt_member (ex_payee ''USER'' False [ex_adhoc, ex_bank, ex_balance]) ''isActive''
              \<noteq> JBool True"
    and c: "\<not> inFamily ex_family (ex_payee ''USER'' False [ex_adhoc, ex_bank, ex_balance])"
    by (simp_all add: ex_payee_simps ex_family_def)
  have d: "payoutMethods (ex_payee ''USER'' False [ex_adhoc, ex_bank, ex_balance]) =
             [ex_adhoc, ex_bank, ex_balance]"
    by (simp add: payoutMethods_def opt_member_def ex_payee_def)
  show ?thesis
    using a b c inactive_returns_saved[OF a b c]
    by (simp add: d ex_payee_simps)
qed

text \<open>
  C9. For an absent payee (\<open>undefined\<close> or \<open>null\<close>) both copies return the empty
  sequence, and do not throw: the result is \<open>Some\<close>.
\<close>

theorem absent_payee_empty:
  "getPayoutMethodsFromPayee tags JUndefined = Some [] \<and>
   getPayoutMethodsFromPayee tags JNull = Some [] \<and>
   getPayoutMethodsFromPayee_SignUpStep tags JUndefined = Some [] \<and>
   getPayoutMethodsFromPayee_SignUpStep tags JNull = Some []"
  by (simp add: getPayoutMethodsFromPayee_SignUpStep_def getPayoutMethodsFromPayee_def
        opt_member_def EMPTY_ARRAY_def array_find_def)

theorem absent_payee_empty_witness:
  "getPayoutMethodsFromPayee ex_family JUndefined = Some [] \<and>
   getPayoutMethodsFromPayee ex_family JNull = Some [] \<and>
   getPayoutMethodsFromPayee_SignUpStep ex_family JUndefined = Some [] \<and>
   getPayoutMethodsFromPayee_SignUpStep ex_family JNull = Some []"
  using absent_payee_empty[of ex_family] by simp

text \<open>
  C10. The two copies of \<open>getPayoutMethodsFromPayee\<close> compute the same function: when
  \<open>AccountTypesWithHost\<close> and \<open>CollectiveFamilyTypes\<close> hold the same set of types,
  both return the same result for every payee, well-formed or not (and throw on the
  same payees).
\<close>

theorem copies_agree:
  assumes "set AccountTypesWithHost = set CollectiveFamilyTypes"
  shows "getPayoutMethodsFromPayee_SignUpStep AccountTypesWithHost payee =
         getPayoutMethodsFromPayee CollectiveFamilyTypes payee"
proof -
  have "array_includes AccountTypesWithHost v = array_includes CollectiveFamilyTypes v" for v
    using assms by (cases v) simp_all
  then show ?thesis
    by (simp add: getPayoutMethodsFromPayee_SignUpStep_def getPayoutMethodsFromPayee_def)
qed

theorem copies_agree_witness:
  "set [''PROJECT'', ''FUND'', ''EVENT'', ''COLLECTIVE'', ''FUND''] = set ex_family \<and>
   getPayoutMethodsFromPayee_SignUpStep [''PROJECT'', ''FUND'', ''EVENT'', ''COLLECTIVE'', ''FUND'']
       (ex_payee ''EVENT'' True [ex_bank, ex_adhoc]) =
     getPayoutMethodsFromPayee ex_family (ex_payee ''EVENT'' True [ex_bank, ex_adhoc])"
proof -
  have a: "set [''PROJECT'', ''FUND'', ''EVENT'', ''COLLECTIVE'', ''FUND''] = set ex_family"
    by (auto simp: ex_family_def)
  show ?thesis
    using a copies_agree[OF a] by simp
qed


section \<open>Preparing an expense: lemmas\<close>

lemma pick_alt:
  "pick v ks = JObj (List.map_filter (\<lambda>k. map_option (Pair k) (map_of (props v) k)) ks)"
  by (cases v) (simp_all add: List.map_filter_def)

lemma map_of_map_filter_Pair:
  "map_of (List.map_filter (\<lambda>k. map_option (Pair k) (m k)) ks) k =
     (if k \<in> set ks then m k else None)"
  by (induction ks) (auto simp: List.map_filter_simps split: option.splits)

lemma map_of_pick:
  "map_of (props (pick v ks)) k = (if k \<in> set ks then map_of (props v) k else None)"
  by (simp add: pick_alt map_of_map_filter_Pair)

lemma lookup_props: "lookup v k = (case map_of (props v) k of None \<Rightarrow> JUndefined | Some x \<Rightarrow> x)"
  by (cases v) simp_all

lemma lookup_pick:
  "lookup (pick v ks) k = (if k \<in> set ks then lookup v k else JUndefined)"
  by (simp add: lookup_props[of "pick v ks"] lookup_props[of v] map_of_pick)

lemma pick_cong:
  "(\<And>k. k \<in> set ks \<Longrightarrow> map_of (props v) k = map_of (props w) k) \<Longrightarrow> pick v ks = pick w ks"
  unfolding pick_alt List.map_filter_def
  by (induction ks) auto

lemma pick_pick: "pick (pick v ks) ks' = pick v (filter (\<lambda>k. k \<in> set ks) ks')"
proof -
  have "List.map_filter (\<lambda>k. map_option (Pair k) (if k \<in> set ks then m k else None)) ks' =
        List.map_filter (\<lambda>k. map_option (Pair k) (m k)) (filter (\<lambda>k. k \<in> set ks) ks')" for m
    by (induction ks') (auto simp: List.map_filter_simps split: option.splits)
  then show ?thesis
    by (simp add: pick_alt[of "pick v ks"] pick_alt[of v "filter _ _"] map_of_pick)
qed

lemma pick_idem: "pick (pick v ks) ks = pick v ks"
  by (simp add: pick_pick)

lemma is_object_pick: "is_object (pick v ks)" "\<not> nullish (pick v ks)" "truthy (pick v ks)"
  by (simp_all add: pick_alt)

lemma submittedItem_object: "\<not> nullish (submittedItem b item)"
  by (simp add: submittedItem_def is_object_pick)

lemma submittedItem_idem: "submittedItem b (submittedItem b item) = submittedItem b item"
proof -
  have "lookup (submittedItem b item) ''__isNew'' = JUndefined"
    by (simp add: submittedItem_def lookup_pick)
  then show ?thesis
    by (simp add: submittedItem_def[of b "submittedItem b item"])
       (simp add: submittedItem_def pick_pick)
qed

lemma opt_member_lookup: "opt_member v k = lookup v k"
  by (cases v) (simp_all add: opt_member_def)

lemma map_opt_total:
  "map_opt (\<lambda>x. if nullish x then None else Some (g x)) xs =
     (if list_all (\<lambda>x. \<not> nullish x) xs then Some (map g xs) else None)"
  by (induction xs) simp_all

lemma map_opt_Some: "map_opt (\<lambda>x. Some (g x)) xs = Some (map g xs)"
  by (induction xs) simp_all

lemma item_callback:
  "(\<lambda>item. member item ''__isNew'' \<bind> (\<lambda>isNew. Some (pick item
       ((if truthy isNew then [] else [''id'']) @ (if noUrl then [] else [''url'']) @
        [''description'', ''incurredAt'', ''amount'']))))
   = (\<lambda>item. if nullish item then None else Some (submittedItem noUrl item))"
  by (rule ext) (simp add: member_def submittedItem_def)

text \<open>
  \<open>prepareExpenseForSubmit\<close> returns exactly on the well-formed drafts, and returns
  the payload there.
\<close>

lemma prepare_eq:
  "prepareExpenseForSubmit draft = (if wf_draft draft then Some (payload draft) else None)"
proof (cases "nullish draft")
  case True
  then show ?thesis
    by (cases draft) (simp_all add: prepareExpenseForSubmit_def member_def wf_draft_def)
next
  case False
  then have m: "member draft k = Some (lookup draft k)" for k
    by (simp add: member_def)
  show ?thesis
  proof (cases "lookup draft ''items''")
    case (JArr its)
    show ?thesis
    proof (cases "lookup draft ''attachedFiles''")
      case files: (JArr fs)
      show ?thesis
        unfolding prepareExpenseForSubmit_def Let_def item_callback m
        by (simp add: JArr files wf_draft_def payload_def itemsOf_def map_opt_total
              map_opt_Some opt_member_lookup)
    qed (simp_all add: prepareExpenseForSubmit_def Let_def item_callback m JArr wf_draft_def
          payload_def itemsOf_def map_opt_total map_opt_Some opt_member_lookup)
  qed (simp_all add: prepareExpenseForSubmit_def Let_def item_callback m wf_draft_def)
qed

lemma prepare_returns_iff: "(\<exists>r. prepareExpenseForSubmit draft = Some r) = wf_draft draft"
  by (simp add: prepare_eq)

lemma map_of_payload_picked:
  assumes "k \<in> set [''id'', ''description'', ''longDescription'', ''type'', ''privateMessage'',
            ''invoiceInfo'', ''tags'']"
  shows "map_of (props (payload draft)) k = map_of (props draft) k"
  using assms by (auto simp: payload_def Let_def map_of_pick map_add_def split: option.splits)

lemma map_of_payload_other:
  "map_of (props (payload draft)) ''__isNew'' = None"
  "map_of (props (payload draft)) ''currency'' = None"
  by (simp_all add: payload_def Let_def map_of_pick map_add_def)

lemma lookup_payload_type: "lookup (payload draft) ''type'' = lookup draft ''type''"
  by (simp add: lookup_props[of "payload draft"] lookup_props[of draft] map_of_payload_picked)

lemma lookup_payload_payee:
  "lookup (payload draft) ''payee'' =
     (if truthy (lookup draft ''payee'')
      then JObj [(if is_string (lookup (lookup draft ''payee'') ''id'') then ''id'' else ''legacyId'',
                  lookup (lookup draft ''payee'') ''id'')]
      else lookup draft ''payee'')"
  by (simp add: payload_def Let_def map_of_pick map_add_def)

lemma lookup_payload_payoutMethod:
  "lookup (payload draft) ''payoutMethod'' =
     pick (lookup draft ''payoutMethod'') [''id'', ''name'', ''data'', ''isSaved'', ''type'']"
  by (simp add: payload_def Let_def map_of_pick map_add_def)

lemma lookup_payload_payeeLocation:
  "lookup (payload draft) ''payeeLocation'' =
     (if lookup draft ''type'' = expenseTypes_INVOICE
      then pick (lookup draft ''payeeLocation'') [''address'', ''country'']
      else JNull)"
  by (simp add: payload_def Let_def map_of_pick map_add_def)

lemma lookup_payload_attachedFiles:
  "lookup (payload draft) ''attachedFiles'' =
     (if lookup draft ''type'' = expenseTypes_INVOICE then
        (case lookup draft ''attachedFiles'' of
           JArr files \<Rightarrow> JArr (map (\<lambda>file. pick file [''id'', ''url'']) files)
         | v \<Rightarrow> JUndefined)
      else JArr [])"
  by (simp add: payload_def Let_def map_of_pick map_add_def)

lemma lookup_payload_items:
  "lookup (payload draft) ''items'' =
     JArr (map (submittedItem (lookup draft ''type'' = expenseTypes_INVOICE \<or>
                               lookup draft ''type'' = expenseTypes_FUNDING_REQUEST))
             (itemsOf draft))"
  by (simp add: payload_def Let_def map_of_pick map_add_def)

lemmas lookup_payload =
  lookup_payload_type lookup_payload_payee lookup_payload_payoutMethod
  lookup_payload_payeeLocation lookup_payload_attachedFiles lookup_payload_items

lemma expenseTypes_distinct:
  "expenseTypes_RECEIPT \<noteq> expenseTypes_INVOICE"
  "expenseTypes_RECEIPT \<noteq> expenseTypes_FUNDING_REQUEST"
  "expenseTypes_FUNDING_REQUEST \<noteq> expenseTypes_INVOICE"
  by (simp_all add: expenseTypes_RECEIPT_def expenseTypes_INVOICE_def
        expenseTypes_FUNDING_REQUEST_def)

lemma submittedItem_url:
  "map_of (props (submittedItem True item)) ''url'' = None"
  "map_of (props (submittedItem False item)) ''url'' = map_of (props item) ''url''"
  by (simp_all add: submittedItem_def map_of_pick)

lemma itemsOf_payload:
  "itemsOf (payload draft) =
     map (submittedItem (lookup draft ''type'' = expenseTypes_INVOICE \<or>
                         lookup draft ''type'' = expenseTypes_FUNDING_REQUEST))
       (itemsOf draft)"
  by (simp add: itemsOf_def[of "payload draft"] lookup_payload_items)

lemma wf_payload: "wf_draft (payload draft)"
  by (simp add: wf_draft_def[of "payload draft"] lookup_payload list_all_iff
        submittedItem_object split: jsval.splits)

lemma pick_payload:
  "pick (payload draft)
     [''id'', ''description'', ''longDescription'', ''type'', ''privateMessage'',
      ''invoiceInfo'', ''tags''] =
   pick draft
     [''id'', ''description'', ''longDescription'', ''type'', ''privateMessage'',
      ''invoiceInfo'', ''tags'']"
  by (rule pick_cong) (rule map_of_payload_picked)

lemma keys_pick: "k \<notin> set ks \<Longrightarrow> k \<notin> fst ` set (props (pick v ks))"
  using map_of_pick[of v ks k] by (auto simp: map_of_eq_None_iff)

lemma obj_set_append:
  "k \<notin> fst ` set kvs \<Longrightarrow> obj_set (kvs @ (k, x) # rest) k y = kvs @ (k, y) # rest"
  by (induction kvs) auto

text \<open>
  The payload of a payload: everything is as in the payload itself, but for the payee
  reference of a payee whose \<open>id\<close> is not a string. The first application moves that
  identifier under \<open>legacyId\<close>; the second one reads \<open>id\<close> again and finds nothing.
\<close>

lemma payload_payload:
  "payload (payload draft) =
     (if truthy (lookup draft ''payee'') \<and> \<not> is_string (lookup (lookup draft ''payee'') ''id'')
      then JObj (obj_set (props (payload draft)) ''payee'' (JObj [(''legacyId'', JUndefined)]))
      else payload draft)"
proof -
  have files: "(case (case v of JArr files \<Rightarrow> JArr (map (\<lambda>file. pick file ks) files)
                        | _ \<Rightarrow> JUndefined) of
                  JArr files \<Rightarrow> JArr (map (\<lambda>file. pick file ks) files) | _ \<Rightarrow> JUndefined) =
               (case v of JArr files \<Rightarrow> JArr (map (\<lambda>file. pick file ks) files)
                        | _ \<Rightarrow> JUndefined)" for v ks
    by (cases v) (simp_all add: pick_idem)
  have once: "payload (payload draft) =
     JObj (props (pick draft
           [''id'', ''description'', ''longDescription'', ''type'', ''privateMessage'',
            ''invoiceInfo'', ''tags'']) @
         [(''payee'',
             if truthy (lookup draft ''payee'')
             then (if is_string (lookup (lookup draft ''payee'') ''id'')
                   then JObj [(''id'', lookup (lookup draft ''payee'') ''id'')]
                   else JObj [(''legacyId'', JUndefined)])
             else lookup draft ''payee''),
          (''payoutMethod'', lookup (payload draft) ''payoutMethod''),
          (''payeeLocation'', lookup (payload draft) ''payeeLocation''),
          (''attachedFiles'', lookup (payload draft) ''attachedFiles''),
          (''items'', lookup (payload draft) ''items'')])"
    unfolding payload_def[of "payload draft"] Let_def pick_payload itemsOf_payload
      lookup_payload_type
    by (simp add: lookup_payload files pick_idem submittedItem_idem)
  have keys: "''payee'' \<notin> fst ` set (props (pick draft
           [''id'', ''description'', ''longDescription'', ''type'', ''privateMessage'',
            ''invoiceInfo'', ''tags'']))"
    by (rule keys_pick) simp
  show ?thesis
    unfolding once
    by (simp add: lookup_payload)
       (simp add: payload_def Let_def obj_set_append[OF keys])
qed

lemma wf_ex_draft: "wf_draft (ex_draft ty payee)"
  by (simp add: wf_draft_def ex_draft_def ex_item_new_def ex_item_saved_def)

lemma lookup_ex_draft:
  "lookup (ex_draft ty payee) ''type'' = JStr ty"
  "lookup (ex_draft ty payee) ''payee'' = payee"
  "lookup (ex_draft ty payee) ''payeeLocation'' = ex_location"
  "lookup (ex_draft ty payee) ''attachedFiles'' = JArr [ex_file]"
  "itemsOf (ex_draft ty payee) = [ex_item_new, ex_item_saved]"
  by (simp_all add: ex_draft_def itemsOf_def)

lemma ex_accounts:
  "truthy ex_account_v1" "lookup ex_account_v1 ''id'' = JNum 4051"
  "truthy ex_account_v2" "lookup ex_account_v2 ''id'' = JStr ''ab-cd''"
  by (simp_all add: ex_account_v1_def ex_account_v2_def)

lemma ex_submitted:
  "submittedItem True ex_item_new =
     JObj [(''description'', JStr ''Pizza''), (''incurredAt'', JStr ''2020-10-01''),
           (''amount'', JNum 1200)]"
  "submittedItem True ex_item_saved =
     JObj [(''id'', JStr ''item-7''), (''description'', JStr ''Drinks''),
           (''incurredAt'', JStr ''2020-10-02''), (''amount'', JNum 800)]"
  "submittedItem False ex_item_new =
     JObj [(''url'', JStr ''/r/1.png''), (''description'', JStr ''Pizza''),
           (''incurredAt'', JStr ''2020-10-01''), (''amount'', JNum 1200)]"
  "submittedItem False ex_item_saved =
     JObj [(''id'', JStr ''item-7''), (''url'', JStr ''/r/2.png''),
           (''description'', JStr ''Drinks''), (''incurredAt'', JStr ''2020-10-02''),
           (''amount'', JNum 800)]"
  by (simp_all add: submittedItem_def ex_item_new_def ex_item_saved_def List.map_filter_simps)

lemma ex_picked:
  "pick ex_location [''address'', ''country''] =
     JObj [(''address'', JStr ''1 rue X''), (''country'', JStr ''FR'')]"
  "pick ex_file [''id'', ''url''] = JObj [(''id'', JStr ''file-1''), (''url'', JStr ''/f/1.pdf'')]"
  by (simp_all add: ex_location_def ex_file_def List.map_filter_simps)

lemmas ex_draft_simps =
  wf_ex_draft lookup_ex_draft ex_accounts ex_submitted ex_picked
  expenseTypes_INVOICE_def expenseTypes_RECEIPT_def expenseTypes_FUNDING_REQUEST_def

lemma map_of_obj_set: "map_of (obj_set kvs k v) = (map_of kvs)(k \<mapsto> v)"
  by (induction kvs) (auto simp: fun_eq_iff)

lemma lookup_obj_set:
  "lookup (JObj (obj_set kvs k v)) k' = (if k' = k then v else lookup (JObj kvs) k')"
  by (simp add: map_of_obj_set)

section \<open>Preparing an expense: the claims\<close>

text \<open>
  C5. For a draft with a payee, \<open>prepareExpenseForSubmit\<close> returns a payload whose
  \<open>payee\<close> is an object with exactly one property, holding the payee's \<open>id\<close>: the
  property is named \<open>id\<close> when that identifier is a string and \<open>legacyId\<close> otherwise.
\<close>

theorem payee_reference:
  assumes "wf_draft draft" and "truthy (lookup draft ''payee'')"
  shows "\<exists>r. prepareExpenseForSubmit draft = Some r \<and>
             lookup r ''payee'' =
               JObj [(if is_string (lookup (lookup draft ''payee'') ''id'')
                      then ''id'' else ''legacyId'',
                      lookup (lookup draft ''payee'') ''id'')]"
  using assms by (simp add: prepare_eq lookup_payload_payee)

theorem payee_reference_witness:
  "wf_draft (ex_draft ''RECEIPT'' ex_account_v1) \<and>
   truthy (lookup (ex_draft ''RECEIPT'' ex_account_v1) ''payee'') \<and>
   map_option (\<lambda>r. lookup r ''payee'') (prepareExpenseForSubmit (ex_draft ''RECEIPT'' ex_account_v1))
     = Some (JObj [(''legacyId'', JNum 4051)]) \<and>
   wf_draft (ex_draft ''RECEIPT'' ex_account_v2) \<and>
   truthy (lookup (ex_draft ''RECEIPT'' ex_account_v2) ''payee'') \<and>
   map_option (\<lambda>r. lookup r ''payee'') (prepareExpenseForSubmit (ex_draft ''RECEIPT'' ex_account_v2))
     = Some (JObj [(''id'', JStr ''ab-cd'')])"
proof -
  have a: "wf_draft (ex_draft ''RECEIPT'' ex_account_v1)"
    and b: "truthy (lookup (ex_draft ''RECEIPT'' ex_account_v1) ''payee'')"
    and c: "wf_draft (ex_draft ''RECEIPT'' ex_account_v2)"
    and d: "truthy (lookup (ex_draft ''RECEIPT'' ex_account_v2) ''payee'')"
    by (simp_all add: ex_draft_simps)
  show ?thesis
    using a b c d payee_reference[OF a b] payee_reference[OF c d]
    by (auto simp: ex_draft_simps)
qed

text \<open>
  C6. What the payload holds depends on the draft's type.
  \<^item> Invoice: \<open>payeeLocation\<close> is the \<open>address\<close> and \<open>country\<close> of the draft's
    location and nothing else; \<open>attachedFiles\<close> is kept, each file reduced to its
    \<open>id\<close> and \<open>url\<close> (a draft without the property keeps it \<open>undefined\<close>); no item has
    a \<open>url\<close>.
  \<^item> Receipt: \<open>payeeLocation\<close> is \<open>null\<close>, \<open>attachedFiles\<close> is empty, and every item
    has the \<open>url\<close> of the draft's item, or none where that has none.
  \<^item> Funding request: no item has a \<open>url\<close>.
  \<^item> Any type but invoice: \<open>payeeLocation\<close> is \<open>null\<close> and \<open>attachedFiles\<close> is empty.
\<close>

theorem payload_by_type:
  assumes "wf_draft draft"
  shows "\<exists>r its. prepareExpenseForSubmit draft = Some r \<and> lookup r ''items'' = JArr its \<and>
    (lookup draft ''type'' = expenseTypes_INVOICE \<longrightarrow>
       lookup r ''payeeLocation'' = pick (lookup draft ''payeeLocation'') [''address'', ''country''] \<and>
       lookup (lookup r ''payeeLocation'') ''address'' =
         lookup (lookup draft ''payeeLocation'') ''address'' \<and>
       lookup (lookup r ''payeeLocation'') ''country'' =
         lookup (lookup draft ''payeeLocation'') ''country'' \<and>
       lookup r ''attachedFiles'' =
         (case lookup draft ''attachedFiles'' of
            JArr files \<Rightarrow> JArr (map (\<lambda>file. pick file [''id'', ''url'']) files)
          | v \<Rightarrow> JUndefined) \<and>
       list_all (\<lambda>item. map_of (props item) ''url'' = None) its) \<and>
    (lookup draft ''type'' = expenseTypes_RECEIPT \<longrightarrow>
       lookup r ''payeeLocation'' = JNull \<and>
       lookup r ''attachedFiles'' = JArr [] \<and>
       list_all2 (\<lambda>item item'. map_of (props item') ''url'' = map_of (props item) ''url'')
         (itemsOf draft) its) \<and>
    (lookup draft ''type'' = expenseTypes_FUNDING_REQUEST \<longrightarrow>
       list_all (\<lambda>item. map_of (props item) ''url'' = None) its) \<and>
    (lookup draft ''type'' \<noteq> expenseTypes_INVOICE \<longrightarrow>
       lookup r ''payeeLocation'' = JNull \<and> lookup r ''attachedFiles'' = JArr [])"
proof -
  let ?noUrl = "lookup draft ''type'' = expenseTypes_INVOICE \<or>
                lookup draft ''type'' = expenseTypes_FUNDING_REQUEST"
  let ?its = "map (submittedItem ?noUrl) (itemsOf draft)"
  have ret: "prepareExpenseForSubmit draft = Some (payload draft)"
    using assms by (simp add: prepare_eq)
  have items: "lookup (payload draft) ''items'' = JArr ?its"
    by (rule lookup_payload_items)
  have dropped: "list_all (\<lambda>item. map_of (props item) ''url'' = None) ?its" if "?noUrl"
    using that by (simp add: list_all_iff submittedItem_url)
  have kept: "list_all2 (\<lambda>item item'. map_of (props item') ''url'' = map_of (props item) ''url'')
                (itemsOf draft) ?its" if "\<not> ?noUrl"
    using that by (simp add: list_all2_map2 list_all2_same submittedItem_url)
  have invoice: "lookup (payload draft) ''payeeLocation'' =
                   pick (lookup draft ''payeeLocation'') [''address'', ''country''] \<and>
                 lookup (lookup (payload draft) ''payeeLocation'') ''address'' =
                   lookup (lookup draft ''payeeLocation'') ''address'' \<and>
                 lookup (lookup (payload draft) ''payeeLocation'') ''country'' =
                   lookup (lookup draft ''payeeLocation'') ''country'' \<and>
                 lookup (payload draft) ''attachedFiles'' =
                   (case lookup draft ''attachedFiles'' of
                      JArr files \<Rightarrow> JArr (map (\<lambda>file. pick file [''id'', ''url'']) files)
                    | v \<Rightarrow> JUndefined)"
    if "lookup draft ''type'' = expenseTypes_INVOICE"
    using that by (simp add: lookup_payload lookup_pick)
  have other: "lookup (payload draft) ''payeeLocation'' = JNull \<and>
               lookup (payload draft) ''attachedFiles'' = JArr []"
    if "lookup draft ''type'' \<noteq> expenseTypes_INVOICE"
    using that by (simp add: lookup_payload)
  show ?thesis
    using ret items dropped kept invoice other expenseTypes_distinct
    by (intro exI[of _ "payload draft"] exI[of _ ?its]) auto
qed

theorem payload_by_type_witness:
  "wf_draft (ex_draft ''INVOICE'' ex_account_v2) \<and>
   map_option (\<lambda>r. [lookup r ''payeeLocation'', lookup r ''attachedFiles'', lookup r ''items''])
       (prepareExpenseForSubmit (ex_draft ''INVOICE'' ex_account_v2)) =
     Some [JObj [(''address'', JStr ''1 rue X''), (''country'', JStr ''FR'')],
           JArr [JObj [(''id'', JStr ''file-1''), (''url'', JStr ''/f/1.pdf'')]],
           JArr [JObj [(''description'', JStr ''Pizza''), (''incurredAt'', JStr ''2020-10-01''),
                       (''amount'', JNum 1200)],
                 JObj [(''id'', JStr ''item-7''), (''description'', JStr ''Drinks''),
                       (''incurredAt'', JStr ''2020-10-02''), (''amount'', JNum 800)]]] \<and>
   wf_draft (ex_draft ''RECEIPT'' ex_account_v2) \<and>
   map_option (\<lambda>r. [lookup r ''payeeLocation'', lookup r ''attachedFiles'', lookup r ''items''])
       (prepareExpenseForSubmit (ex_draft ''RECEIPT'' ex_account_v2)) =
     Some [JNull, JArr [],
           JArr [JObj [(''url'', JStr ''/r/1.png''), (''description'', JStr ''Pizza''),
                       (''incurredAt'', JStr ''2020-10-01''), (''amount'', JNum 1200)],
                 JObj [(''id'', JStr ''item-7''), (''url'', JStr ''/r/2.png''),
                       (''description'', JStr ''Drinks''), (''incurredAt'', JStr ''2020-10-02''),
                       (''amount'', JNum 800)]]] \<and>
   wf_draft (ex_draft ''FUNDING_REQUEST'' ex_account_v2) \<and>
   map_option (\<lambda>r. [lookup r ''payeeLocation'', lookup r ''attachedFiles'', lookup r ''items''])
       (prepareExpenseForSubmit (ex_draft ''FUNDING_REQUEST'' ex_account_v2)) =
     Some [JNull, JArr [],
           JArr [JObj [(''description'', JStr ''Pizza''), (''incurredAt'', JStr ''2020-10-01''),
                       (''amount'', JNum 1200)],
                 JObj [(''id'', JStr ''item-7''), (''description'', JStr ''Drinks''),
                       (''incurredAt'', JStr ''2020-10-02''), (''amount'', JNum 800)]]]"
proof -
  have a: "wf_draft (ex_draft ''INVOICE'' ex_account_v2)"
    and b: "wf_draft (ex_draft ''RECEIPT'' ex_account_v2)"
    and c: "wf_draft (ex_draft ''FUNDING_REQUEST'' ex_account_v2)"
    by (rule wf_ex_draft)+
  show ?thesis
    using payload_by_type[OF a] payload_by_type[OF b] payload_by_type[OF c]
    by (simp add: prepare_eq lookup_payload ex_draft_simps)
qed

text \<open>
  C4, as the spec states it, fails. A receipt draft whose payee has a numeric
  identifier is well-formed. The first application gives the payee reference
  \<open>{legacyId: 4051}\<close>; applied to that payload, the function gives
  \<open>{legacyId: undefined}\<close>, so the two results differ.
\<close>

theorem prepare_idempotent_counterexample:
  "wf_draft (ex_draft ''RECEIPT'' ex_account_v1) \<and>
   map_option (\<lambda>r. lookup r ''payee'')
       (prepareExpenseForSubmit (ex_draft ''RECEIPT'' ex_account_v1)) =
     Some (JObj [(''legacyId'', JNum 4051)]) \<and>
   map_option (\<lambda>r. lookup r ''payee'')
       (prepareExpenseForSubmit (ex_draft ''RECEIPT'' ex_account_v1) \<bind> prepareExpenseForSubmit) =
     Some (JObj [(''legacyId'', JUndefined)]) \<and>
   prepareExpenseForSubmit (ex_draft ''RECEIPT'' ex_account_v1) \<bind> prepareExpenseForSubmit \<noteq>
     prepareExpenseForSubmit (ex_draft ''RECEIPT'' ex_account_v1)"
proof -
  let ?d = "ex_draft ''RECEIPT'' ex_account_v1"
  have one: "map_option (\<lambda>r. lookup r ''payee'') (prepareExpenseForSubmit ?d) =
               Some (JObj [(''legacyId'', JNum 4051)])"
    by (simp add: prepare_eq lookup_payload_payee ex_draft_simps)
  have two: "map_option (\<lambda>r. lookup r ''payee'')
               (prepareExpenseForSubmit ?d \<bind> prepareExpenseForSubmit) =
             Some (JObj [(''legacyId'', JUndefined)])"
    by (simp add: prepare_eq wf_payload lookup_payload_payee ex_draft_simps)
  from one two have "prepareExpenseForSubmit ?d \<bind> prepareExpenseForSubmit \<noteq>
                     prepareExpenseForSubmit ?d"
    by auto
  with one two show ?thesis
    by (simp add: wf_ex_draft)
qed

text \<open>
  C4, amended. For every well-formed draft both applications return. The second result
  is the first one, except that the payee reference of a payee whose \<open>id\<close> is not a
  string becomes \<open>{legacyId: undefined}\<close>. So the function is idempotent on drafts
  whose payee is absent or has a string \<open>id\<close>, and on every well-formed draft the
  \<open>payoutMethod\<close>, \<open>payeeLocation\<close>, \<open>attachedFiles\<close> and \<open>items\<close> of the two
  results are equal.
\<close>

theorem prepare_twice:
  assumes "wf_draft draft"
  shows "\<exists>r r'. prepareExpenseForSubmit draft = Some r \<and> prepareExpenseForSubmit r = Some r' \<and>
    r' = (if truthy (lookup draft ''payee'') \<and>
             \<not> is_string (lookup (lookup draft ''payee'') ''id'')
          then JObj (obj_set (props r) ''payee'' (JObj [(''legacyId'', JUndefined)]))
          else r) \<and>
    lookup r' ''payoutMethod'' = lookup r ''payoutMethod'' \<and>
    lookup r' ''payeeLocation'' = lookup r ''payeeLocation'' \<and>
    lookup r' ''attachedFiles'' = lookup r ''attachedFiles'' \<and>
    lookup r' ''items'' = lookup r ''items''"
proof -
  have ret: "prepareExpenseForSubmit draft = Some (payload draft)"
    using assms by (simp add: prepare_eq)
  have ret': "prepareExpenseForSubmit (payload draft) = Some (payload (payload draft))"
    by (simp add: prepare_eq wf_payload)
  have same: "lookup (payload (payload draft)) k = lookup (payload draft) k"
    if "k \<noteq> ''payee''" for k
    using that by (simp add: payload_payload map_of_obj_set lookup_props[of "payload draft"])
  show ?thesis
  proof (intro exI conjI)
    show "prepareExpenseForSubmit draft = Some (payload draft)"
      by (rule ret)
    show "prepareExpenseForSubmit (payload draft) = Some (payload (payload draft))"
      by (rule ret')
    show "payload (payload draft) =
            (if truthy (lookup draft ''payee'') \<and>
                \<not> is_string (lookup (lookup draft ''payee'') ''id'')
             then JObj (obj_set (props (payload draft)) ''payee''
                    (JObj [(''legacyId'', JUndefined)]))
             else payload draft)"
      by (rule payload_payload)
  qed (simp_all add: same)
qed

theorem prepare_twice_witness:
  "wf_draft (ex_draft ''INVOICE'' ex_account_v2) \<and>
   (\<exists>r. prepareExpenseForSubmit (ex_draft ''INVOICE'' ex_account_v2) = Some r) \<and>
   prepareExpenseForSubmit (ex_draft ''INVOICE'' ex_account_v2) \<bind> prepareExpenseForSubmit =
     prepareExpenseForSubmit (ex_draft ''INVOICE'' ex_account_v2) \<and>
   wf_draft (ex_draft ''RECEIPT'' ex_account_v1) \<and>
   (\<exists>r. prepareExpenseForSubmit (ex_draft ''RECEIPT'' ex_account_v1) = Some r) \<and>
   map_option (\<lambda>r. map (lookup r) [''payoutMethod'', ''payeeLocation'', ''attachedFiles'', ''items''])
       (prepareExpenseForSubmit (ex_draft ''RECEIPT'' ex_account_v1) \<bind> prepareExpenseForSubmit) =
     map_option (\<lambda>r. map (lookup r) [''payoutMethod'', ''payeeLocation'', ''attachedFiles'', ''items''])
       (prepareExpenseForSubmit (ex_draft ''RECEIPT'' ex_account_v1))"
proof -
  have a: "wf_draft (ex_draft ''INVOICE'' ex_account_v2)"
    and b: "wf_draft (ex_draft ''RECEIPT'' ex_account_v1)"
    by (rule wf_ex_draft)+
  show ?thesis
    using a b prepare_twice[OF a] prepare_twice[OF b]
    by (auto simp: ex_draft_simps)
qed


section \<open>Validating an expense: lemmas\<close>

lemma toPath_fields:
  "toPath ''description'' = [''description'']"
  "toPath ''payee'' = [''payee'']"
  "toPath ''payoutMethod'' = [''payoutMethod'']"
  "toPath ''currency'' = [''currency'']"
  "toPath ''payeeLocation.country'' = [''payeeLocation'', ''country'']"
  "toPath ''payeeLocation.address'' = [''payeeLocation'', ''address'']"
  by simp_all

text \<open>The errors of the first required-field check, key by key.\<close>

lemma map_of_requireFields_top:
  "map_of (requireFields expense [''description'', ''payee'', ''payoutMethod'', ''currency'']) k =
     (if k \<in> set [''description'', ''payee'', ''payoutMethod'', ''currency''] \<and>
         isMissingOrEmpty (lookup expense k)
      then Some FORM_FIELD_REQUIRED else None)"
  by (simp add: requireFields_def toPath_fields opt_member_lookup map_of_obj_set)

text \<open>The errors of the check of the payee location, in closed form.\<close>

lemma requireFields_location:
  "requireFields expense [''payeeLocation.country'', ''payeeLocation.address''] =
     (let country = isMissingOrEmpty (lookup (lookup expense ''payeeLocation'') ''country'');
          address = isMissingOrEmpty (lookup (lookup expense ''payeeLocation'') ''address'')
      in if country \<or> address then
           [(''payeeLocation'',
             JObj ((if country then [(''country'', FORM_FIELD_REQUIRED)] else []) @
                   (if address then [(''address'', FORM_FIELD_REQUIRED)] else [])))]
         else [])"
  by (simp add: requireFields_def toPath_fields opt_member_lookup Let_def)

lemma object_assign_simps:
  "object_assign target [] = target"
  "object_assign target [(k, v)] = obj_set target k v"
  by (simp_all add: object_assign_def)

lemma validate_array:
  assumes "lookup expense ''items'' = JArr its"
  shows "validate vi vp expense =
           Some (JObj (if lookup expense ''type'' = expenseTypes_INVOICE
                       then object_assign (errorsBeforeLocation vi vp expense)
                              (requireFields expense
                                 [''payeeLocation.country'', ''payeeLocation.address''])
                       else errorsBeforeLocation vi vp expense))"
proof -
  from assms have "\<not> nullish expense"
    by (cases expense) simp_all
  then have m: "member expense ''items'' = Some (JArr its)"
    by (simp add: member_def assms)
  show ?thesis
    unfolding validate_def Let_def m
    by (cases its) (simp_all add: errorsBeforeLocation_def itemsOf_def assms Let_def)
qed

lemma map_of_errorsBeforeLocation:
  assumes "k \<noteq> ''items''" and "k \<noteq> ''payoutMethod''"
  shows "map_of (errorsBeforeLocation vi vp expense) k =
           (if k \<in> set [''description'', ''payee'', ''currency''] \<and>
               isMissingOrEmpty (lookup expense k)
            then Some FORM_FIELD_REQUIRED else None)"
  using assms
  by (simp add: errorsBeforeLocation_def Let_def map_of_obj_set map_of_requireFields_top)

lemma lookup_errors_location:
  assumes "lookup expense ''items'' = JArr its"
    and "validate vi vp expense = Some errors"
  shows "lookup errors ''payeeLocation'' =
           (if lookup expense ''type'' = expenseTypes_INVOICE \<and>
               (isMissingOrEmpty (lookup (lookup expense ''payeeLocation'') ''country'') \<or>
                isMissingOrEmpty (lookup (lookup expense ''payeeLocation'') ''address''))
            then JObj
              ((if isMissingOrEmpty (lookup (lookup expense ''payeeLocation'') ''country'')
                then [(''country'', FORM_FIELD_REQUIRED)] else []) @
               (if isMissingOrEmpty (lookup (lookup expense ''payeeLocation'') ''address'')
                then [(''address'', FORM_FIELD_REQUIRED)] else []))
            else JUndefined)"
    and "map_of (props errors) ''payeeLocation'' = None \<longleftrightarrow>
           \<not> (lookup expense ''type'' = expenseTypes_INVOICE \<and>
               (isMissingOrEmpty (lookup (lookup expense ''payeeLocation'') ''country'') \<or>
                isMissingOrEmpty (lookup (lookup expense ''payeeLocation'') ''address'')))"
  using assms(2) unfolding validate_array[OF assms(1)]
  by (auto simp: requireFields_location Let_def object_assign_simps map_of_obj_set
        map_of_errorsBeforeLocation)

lemma lookup_errors_top:
  assumes "lookup expense ''items'' = JArr its"
    and "validate vi vp expense = Some errors"
    and "k \<in> set [''description'', ''payee'', ''currency'']"
  shows "lookup errors k =
           (if isMissingOrEmpty (lookup expense k) then FORM_FIELD_REQUIRED else JUndefined)"
  using assms(2,3) unfolding validate_array[OF assms(1)]
  by (auto simp: requireFields_location Let_def object_assign_simps map_of_obj_set
        map_of_errorsBeforeLocation)

section \<open>Validating an expense: the claims\<close>

text \<open>
  C7. For a receipt draft with an empty description, no payee, no payout method, a
  currency and no items, \<open>validate\<close> returns the errors \<open>FORM_FIELD_REQUIRED\<close> for
  \<open>description\<close>, \<open>payee\<close> and \<open>payoutMethod\<close> and nothing else: no entry for
  \<open>currency\<close>, none for \<open>payeeLocation\<close>. The two validators are not called on such a
  draft, so this holds for any of them; the required-field check is the one modelled
  from the spec.
\<close>

theorem validate_blank_receipt:
  assumes "lookup expense ''description'' = JStr ''''"
    and "lookup expense ''payee'' = JNull"
    and "lookup expense ''payoutMethod'' = JNull"
    and "\<not> isMissingOrEmpty (lookup expense ''currency'')"
    and "lookup expense ''items'' = JArr []"
    and "lookup expense ''type'' = expenseTypes_RECEIPT"
  shows "\<exists>errors. validate validateExpenseItem validatePayoutMethod expense = Some errors \<and>
           errors = JObj [(''description'', FORM_FIELD_REQUIRED), (''payee'', FORM_FIELD_REQUIRED),
                          (''payoutMethod'', FORM_FIELD_REQUIRED)] \<and>
           lookup errors ''description'' = FORM_FIELD_REQUIRED \<and>
           lookup errors ''payee'' = FORM_FIELD_REQUIRED \<and>
           lookup errors ''payoutMethod'' = FORM_FIELD_REQUIRED \<and>
           map_of (props errors) ''currency'' = None \<and>
           map_of (props errors) ''payeeLocation'' = None"
proof -
  have "requireFields expense [''description'', ''payee'', ''payoutMethod'', ''currency''] =
          [(''description'', FORM_FIELD_REQUIRED), (''payee'', FORM_FIELD_REQUIRED),
           (''payoutMethod'', FORM_FIELD_REQUIRED)]"
    using assms
    by (simp add: requireFields_def toPath_fields opt_member_lookup isMissingOrEmpty_def)
  then have "validate validateExpenseItem validatePayoutMethod expense =
          Some (JObj [(''description'', FORM_FIELD_REQUIRED), (''payee'', FORM_FIELD_REQUIRED),
                      (''payoutMethod'', FORM_FIELD_REQUIRED)])"
    using assms
    by (simp add: validate_array[OF assms(5)] errorsBeforeLocation_def itemsOf_def
          expenseTypes_distinct)
  then show ?thesis
    by simp
qed

theorem validate_blank_receipt_witness:
  "lookup (ex_blank_draft ''RECEIPT'' JUndefined) ''description'' = JStr '''' \<and>
   lookup (ex_blank_draft ''RECEIPT'' JUndefined) ''payee'' = JNull \<and>
   lookup (ex_blank_draft ''RECEIPT'' JUndefined) ''payoutMethod'' = JNull \<and>
   \<not> isMissingOrEmpty (lookup (ex_blank_draft ''RECEIPT'' JUndefined) ''currency'') \<and>
   lookup (ex_blank_draft ''RECEIPT'' JUndefined) ''items'' = JArr [] \<and>
   lookup (ex_blank_draft ''RECEIPT'' JUndefined) ''type'' = expenseTypes_RECEIPT \<and>
   validate ex_validateExpenseItem ex_validatePayoutMethod (ex_blank_draft ''RECEIPT'' JUndefined) =
     Some (JObj [(''description'', JStr ''FORM_FIELD_REQUIRED''),
                 (''payee'', JStr ''FORM_FIELD_REQUIRED''),
                 (''payoutMethod'', JStr ''FORM_FIELD_REQUIRED'')])"
proof -
  let ?d = "ex_blank_draft ''RECEIPT'' JUndefined"
  have a: "lookup ?d ''description'' = JStr ''''"
    and b: "lookup ?d ''payee'' = JNull"
    and c: "lookup ?d ''payoutMethod'' = JNull"
    and d: "\<not> isMissingOrEmpty (lookup ?d ''currency'')"
    and e: "lookup ?d ''items'' = JArr []"
    and f: "lookup ?d ''type'' = expenseTypes_RECEIPT"
    by (simp_all add: ex_blank_draft_def isMissingOrEmpty_def expenseTypes_RECEIPT_def)
  show ?thesis
    using a b c d e f
      validate_blank_receipt[OF a b c d e f, of ex_validateExpenseItem ex_validatePayoutMethod]
    by (simp add: FORM_FIELD_REQUIRED_def)
qed

text \<open>
  C8. On a draft of the form (\<open>items\<close> is an array) \<open>validate\<close> returns, and:
  \<^item> for an invoice, the errors hold \<open>FORM_FIELD_REQUIRED\<close> at
    \<open>payeeLocation.country\<close> exactly when the draft's country is missing or empty, and
    at \<open>payeeLocation.address\<close> exactly when its address is;
  \<^item> for any other type, the errors have no \<open>payeeLocation\<close> entry;
  \<^item> in both cases the errors of the first check are there as well: \<open>description\<close>,
    \<open>payee\<close> and \<open>currency\<close> hold \<open>FORM_FIELD_REQUIRED\<close> exactly when missing or
    empty in the draft.
\<close>

theorem validate_location_rule:
  assumes "lookup expense ''items'' = JArr its"
  shows "\<exists>errors. validate validateExpenseItem validatePayoutMethod expense = Some errors \<and>
    (lookup expense ''type'' = expenseTypes_INVOICE \<longrightarrow>
       get_path errors (toPath ''payeeLocation.country'') =
         (if isMissingOrEmpty (get_path expense (toPath ''payeeLocation.country''))
          then FORM_FIELD_REQUIRED else JUndefined) \<and>
       get_path errors (toPath ''payeeLocation.address'') =
         (if isMissingOrEmpty (get_path expense (toPath ''payeeLocation.address''))
          then FORM_FIELD_REQUIRED else JUndefined)) \<and>
    (lookup expense ''type'' \<noteq> expenseTypes_INVOICE \<longrightarrow>
       map_of (props errors) ''payeeLocation'' = None) \<and>
    (\<forall>k \<in> set [''description'', ''payee'', ''currency''].
       lookup errors k =
         (if isMissingOrEmpty (lookup expense k) then FORM_FIELD_REQUIRED else JUndefined))"
proof -
  obtain errors where ret: "validate validateExpenseItem validatePayoutMethod expense = Some errors"
    by (simp add: validate_array[OF assms])
  note loc = lookup_errors_location[OF assms ret]
  have "get_path errors (toPath ''payeeLocation.country'') =
         (if isMissingOrEmpty (get_path expense (toPath ''payeeLocation.country''))
          then FORM_FIELD_REQUIRED else JUndefined)"
    and "get_path errors (toPath ''payeeLocation.address'') =
         (if isMissingOrEmpty (get_path expense (toPath ''payeeLocation.address''))
          then FORM_FIELD_REQUIRED else JUndefined)"
    if "lookup expense ''type'' = expenseTypes_INVOICE"
    using that by (simp_all add: toPath_fields opt_member_lookup loc(1))
  moreover have "map_of (props errors) ''payeeLocation'' = None"
    if "lookup expense ''type'' \<noteq> expenseTypes_INVOICE"
    using that by (simp add: loc(2))
  moreover have "\<forall>k \<in> set [''description'', ''payee'', ''currency''].
       lookup errors k =
         (if isMissingOrEmpty (lookup expense k) then FORM_FIELD_REQUIRED else JUndefined)"
    using lookup_errors_top[OF assms ret] by blast
  ultimately show ?thesis
    using ret by blast
qed

theorem validate_location_rule_witness:
  "lookup (ex_blank_draft ''INVOICE'' (JObj [(''country'', JNull), (''address'', JStr '''')]))
       ''items'' = JArr [] \<and>
   validate ex_validateExpenseItem ex_validatePayoutMethod
       (ex_blank_draft ''INVOICE'' (JObj [(''country'', JNull), (''address'', JStr '''')])) =
     Some (JObj [(''description'', JStr ''FORM_FIELD_REQUIRED''),
                 (''payee'', JStr ''FORM_FIELD_REQUIRED''),
                 (''payoutMethod'', JStr ''FORM_FIELD_REQUIRED''),
                 (''payeeLocation'', JObj [(''country'', JStr ''FORM_FIELD_REQUIRED''),
                                           (''address'', JStr ''FORM_FIELD_REQUIRED'')])]) \<and>
   lookup (ex_blank_draft ''INVOICE'' (JObj [(''country'', JStr ''FR''), (''address'', JStr '''')]))
       ''items'' = JArr [] \<and>
   validate ex_validateExpenseItem ex_validatePayoutMethod
       (ex_blank_draft ''INVOICE'' (JObj [(''country'', JStr ''FR''), (''address'', JStr '''')])) =
     Some (JObj [(''description'', JStr ''FORM_FIELD_REQUIRED''),
                 (''payee'', JStr ''FORM_FIELD_REQUIRED''),
                 (''payoutMethod'', JStr ''FORM_FIELD_REQUIRED''),
                 (''payeeLocation'', JObj [(''address'', JStr ''FORM_FIELD_REQUIRED'')])]) \<and>
   lookup (ex_blank_draft ''RECEIPT'' (JObj [(''country'', JNull), (''address'', JStr '''')]))
       ''items'' = JArr [] \<and>
   validate ex_validateExpenseItem ex_validatePayoutMethod
       (ex_blank_draft ''RECEIPT'' (JObj [(''country'', JNull), (''address'', JStr '''')])) =
     Some (JObj [(''description'', JStr ''FORM_FIELD_REQUIRED''),
                 (''payee'', JStr ''FORM_FIELD_REQUIRED''),
                 (''payoutMethod'', JStr ''FORM_FIELD_REQUIRED'')])"
proof -
  have items: "lookup (ex_blank_draft ty location) ''items'' = JArr []" for ty location
    by (simp add: ex_blank_draft_def)
  have fields: "lookup (ex_blank_draft ty location) ''description'' = JStr ''''"
    "lookup (ex_blank_draft ty location) ''payee'' = JNull"
    "lookup (ex_blank_draft ty location) ''payoutMethod'' = JNull"
    "lookup (ex_blank_draft ty location) ''currency'' = JStr ''USD''"
    "lookup (ex_blank_draft ty location) ''type'' = JStr ty"
    "lookup (ex_blank_draft ty location) ''payeeLocation'' = location"
    "itemsOf (ex_blank_draft ty location) = []" for ty location
    by (simp_all add: ex_blank_draft_def itemsOf_def)
  have top: "requireFields (ex_blank_draft ty location)
               [''description'', ''payee'', ''payoutMethod'', ''currency''] =
          [(''description'', FORM_FIELD_REQUIRED), (''payee'', FORM_FIELD_REQUIRED),
           (''payoutMethod'', FORM_FIELD_REQUIRED)]" for ty location
    by (simp add: requireFields_def toPath_fields opt_member_lookup isMissingOrEmpty_def fields)
  show ?thesis
    using validate_location_rule[OF items, of ex_validateExpenseItem ex_validatePayoutMethod
        "''INVOICE''" "JObj [(''country'', JNull), (''address'', JStr '''')]"]
      validate_location_rule[OF items, of ex_validateExpenseItem ex_validatePayoutMethod
        "''INVOICE''" "JObj [(''country'', JStr ''FR''), (''address'', JStr '''')]"]
      validate_location_rule[OF items, of ex_validateExpenseItem ex_validatePayoutMethod
        "''RECEIPT''" "JObj [(''country'', JNull), (''address'', JStr '''')]"]
    by (simp add: items validate_array[OF items] errorsBeforeLocation_def top fields
          requireFields_location object_assign_simps isMissingOrEmpty_def
          expenseTypes_INVOICE_def FORM_FIELD_REQUIRED_def)
qed

end
